theory Spec2Isabelle
  imports Main "HOL-Library.Char_ord" "HOL-Library.List_Lexorder"
begin

section \<open>Go integers\<close>

text \<open>
  Go's \<open>int\<close> is a 64-bit two's complement integer on the platforms logmd is built for.
  Values are modelled as HOL integers, and every addition and subtraction of the source
  that is not guarded against overflow by the surrounding code is wrapped by \<open>i64\<close>.
  \<open>len\<close> of a slice is a Go \<open>int\<close> that is never negative, so \<open>len xs - 1\<close> cannot wrap.
\<close>

definition i64 :: "int \<Rightarrow> int" where
  "i64 x = (x + 2 ^ 63) mod 2 ^ 64 - 2 ^ 63"


definition len :: "'a list \<Rightarrow> int" where
  "len xs = int (length xs)"

section \<open>Go standard library: strings\<close>

text \<open>
  Go strings are byte sequences; \<open>string\<close> is the list of these bytes. The functions of
  package \<open>strings\<close> that logmd calls are part of the Go distribution, not of the
  repository; they are defined here after their documentation.

  \<open>strings.TrimSpace\<close> removes all leading and trailing white space, as defined by
  Unicode (\<open>unicode.IsSpace\<close>): the runes U+0009 to U+000D, U+0020, U+0085, U+00A0,
  U+1680, U+2000 to U+200A, U+2028, U+2029, U+202F, U+205F and U+3000. A rune is white
  space at the start (end) of a string exactly when its UTF-8 encoding is a prefix
  (suffix) of the bytes; a byte sequence that is not valid UTF-8 decodes to U+FFFD,
  which is not white space.
\<close>

definition spaceEncodings :: "string list" where
  "spaceEncodings =
     [[CHR 0x09], [CHR 0x0A], [CHR 0x0B], [CHR 0x0C], [CHR 0x0D], [CHR 0x20],
      [CHR 0xC2, CHR 0x85], [CHR 0xC2, CHR 0xA0],
      [CHR 0xE1, CHR 0x9A, CHR 0x80],
      [CHR 0xE2, CHR 0x80, CHR 0x80], [CHR 0xE2, CHR 0x80, CHR 0x81],
      [CHR 0xE2, CHR 0x80, CHR 0x82], [CHR 0xE2, CHR 0x80, CHR 0x83],
      [CHR 0xE2, CHR 0x80, CHR 0x84], [CHR 0xE2, CHR 0x80, CHR 0x85],
      [CHR 0xE2, CHR 0x80, CHR 0x86], [CHR 0xE2, CHR 0x80, CHR 0x87],
      [CHR 0xE2, CHR 0x80, CHR 0x88], [CHR 0xE2, CHR 0x80, CHR 0x89],
      [CHR 0xE2, CHR 0x80, CHR 0x8A],
      [CHR 0xE2, CHR 0x80, CHR 0xA8], [CHR 0xE2, CHR 0x80, CHR 0xA9],
      [CHR 0xE2, CHR 0x80, CHR 0xAF],
      [CHR 0xE2, CHR 0x81, CHR 0x9F],
      [CHR 0xE3, CHR 0x80, CHR 0x80]]"

text \<open>The number of bytes of the white-space rune a string starts with (ends with), or 0.\<close>

definition leadingSpace :: "string \<Rightarrow> nat" where
  "leadingSpace s =
     (case find (\<lambda>e. take (length e) s = e) spaceEncodings of
        None \<Rightarrow> 0 | Some e \<Rightarrow> length e)"

definition trailingSpace :: "string \<Rightarrow> nat" where
  "trailingSpace s =
     (case find (\<lambda>e. take (length e) (rev s) = rev e) spaceEncodings of
        None \<Rightarrow> 0 | Some e \<Rightarrow> length e)"

function TrimLeftSpace :: "string \<Rightarrow> string" where
  "TrimLeftSpace s =
     (if leadingSpace s = 0 then s else TrimLeftSpace (drop (leadingSpace s) s))"
  by pat_completeness auto
termination
proof (relation "measure length")
  show "wf (measure length)" by simp
next
  fix s :: string
  assume "leadingSpace s \<noteq> 0"
  then have "s \<noteq> []" by (auto simp: leadingSpace_def spaceEncodings_def)
  with \<open>leadingSpace s \<noteq> 0\<close> show "(drop (leadingSpace s) s, s) \<in> measure length" by simp
qed

function TrimRightSpace :: "string \<Rightarrow> string" where
  "TrimRightSpace s =
     (if trailingSpace s = 0 then s
      else TrimRightSpace (take (length s - trailingSpace s) s))"
  by pat_completeness auto
termination
proof (relation "measure length")
  show "wf (measure length)" by simp
next
  fix s :: string
  assume "trailingSpace s \<noteq> 0"
  then have "s \<noteq> []" by (auto simp: trailingSpace_def spaceEncodings_def)
  with \<open>trailingSpace s \<noteq> 0\<close>
  show "(take (length s - trailingSpace s) s, s) \<in> measure length" by simp
qed

declare TrimLeftSpace.simps [simp del] TrimRightSpace.simps [simp del]

definition TrimSpace :: "string \<Rightarrow> string" where
  "TrimSpace s = TrimRightSpace (TrimLeftSpace s)"

definition HasPrefix :: "string \<Rightarrow> string \<Rightarrow> bool" where
  "HasPrefix s p \<longleftrightarrow> take (length p) s = p"

definition HasSuffix :: "string \<Rightarrow> string \<Rightarrow> bool" where
  "HasSuffix s p \<longleftrightarrow> length p \<le> length s \<and> drop (length s - length p) s = p"

definition TrimSuffix :: "string \<Rightarrow> string \<Rightarrow> string" where
  "TrimSuffix s p = (if HasSuffix s p then take (length s - length p) s else s)"

text \<open>\<open>strings.Split(s, "\n")\<close>: the substrings between line feeds, at least one.\<close>

fun SplitLines :: "string \<Rightarrow> string list" where
  "SplitLines [] = [[]]"
| "SplitLines (c # cs) =
     (if c = CHR 0x0A then [] # SplitLines cs
      else (case SplitLines cs of
              l # ls \<Rightarrow> (c # l) # ls
            | [] \<Rightarrow> [[c]]))"

section \<open>Go standard library: path/filepath, time, sort\<close>

text \<open>
  \<open>filepath.Join\<close> on Unix: the elements from the first non-empty one on are joined
  with \<open>/\<close> and the result is cleaned (\<open>filepath.Clean\<close>): empty and \<open>.\<close> elements are
  dropped, a \<open>..\<close> element removes the element before it, at the root it is dropped,
  and the empty result is \<open>.\<close>.
\<close>

fun splitSlash :: "string \<Rightarrow> string list" where
  "splitSlash [] = [[]]"
| "splitSlash (c # cs) =
     (if c = CHR ''/'' then [] # splitSlash cs
      else (case splitSlash cs of
              l # ls \<Rightarrow> (c # l) # ls
            | [] \<Rightarrow> [[c]]))"

fun joinSlash :: "string list \<Rightarrow> string" where
  "joinSlash [] = []"
| "joinSlash [x] = x"
| "joinSlash (x # y # ys) = x @ ''/'' @ joinSlash (y # ys)"

text \<open>The elements kept so far are in \<open>out\<close>, the last one first.\<close>

fun cleanElements :: "bool \<Rightarrow> string list \<Rightarrow> string list \<Rightarrow> string list" where
  "cleanElements rooted [] out = rev out"
| "cleanElements rooted (c # cs) out =
     (if c = [] \<or> c = ''.'' then cleanElements rooted cs out
      else if c = ''..'' then
        (case out of
           t # rest \<Rightarrow>
             if t = ''..'' then cleanElements rooted cs (c # out)
             else cleanElements rooted cs rest
         | [] \<Rightarrow>
             if rooted then cleanElements rooted cs out
             else cleanElements rooted cs (c # out))
      else cleanElements rooted cs (c # out))"

definition Clean :: "string \<Rightarrow> string" where
  "Clean path =
     (let rooted = HasPrefix path ''/'' \<and> path \<noteq> [];
          body = joinSlash (cleanElements rooted (splitSlash path) [])
      in if rooted then ''/'' @ body
         else if body = [] then ''.'' else body)"

definition Join :: "string \<Rightarrow> string \<Rightarrow> string" where
  "Join a b =
     (if a \<noteq> [] then Clean (a @ ''/'' @ b)
      else if b \<noteq> [] then Clean b
      else [])"

text \<open>
  \<open>time.Parse("2006-01-02", str)\<close>, following the steps of the parser for this layout:
  a year of exactly four digits, a literal \<open>-\<close>, a month of exactly two digits, a
  literal \<open>-\<close>, a day of exactly two digits and no text after it; then the month must
  lie in 1..12 and the day in 1..\<open>daysIn\<close> of the month and year. The result is the
  year, month and day, or \<open>None\<close> for an error.
\<close>

definition isDigit :: "char \<Rightarrow> bool" where
  "isDigit c \<longleftrightarrow> CHR ''0'' \<le> c \<and> c \<le> CHR ''9''"

definition digitVal :: "char \<Rightarrow> nat" where
  "digitVal c = of_char c - of_char CHR ''0''"

definition atoi4 :: "string \<Rightarrow> nat option" where
  "atoi4 p =
     (if list_all isDigit p
      then Some (foldl (\<lambda>acc c. acc * 10 + digitVal c) 0 p)
      else None)"

definition getnum2 :: "string \<Rightarrow> (nat \<times> string) option" where
  "getnum2 s =
     (case s of
        a # b # rest \<Rightarrow>
          if isDigit a \<and> isDigit b then Some (digitVal a * 10 + digitVal b, rest) else None
      | _ \<Rightarrow> None)"

definition skipDash :: "string \<Rightarrow> string option" where
  "skipDash s = (case s of c # rest \<Rightarrow> if c = CHR ''-'' then Some rest else None | [] \<Rightarrow> None)"

definition isLeap :: "nat \<Rightarrow> bool" where
  "isLeap year \<longleftrightarrow> year mod 4 = 0 \<and> (year mod 100 \<noteq> 0 \<or> year mod 400 = 0)"

definition daysBefore :: "nat list" where
  "daysBefore = [0, 31, 59, 90, 120, 151, 181, 212, 243, 273, 304, 334, 365]"

definition daysIn :: "nat \<Rightarrow> nat \<Rightarrow> nat" where
  "daysIn month year =
     (if month = 2 \<and> isLeap year then 29
      else daysBefore ! month - daysBefore ! (month - 1))"

definition parseDate :: "string \<Rightarrow> (nat \<times> nat \<times> nat) option" where
  "parseDate str =
     (if length str < 4 \<or> \<not> isDigit (str ! 0) then None
      else case atoi4 (take 4 str) of
        None \<Rightarrow> None
      | Some year \<Rightarrow>
          (case skipDash (drop 4 str) of
             None \<Rightarrow> None
           | Some v1 \<Rightarrow>
               (case getnum2 v1 of
                  None \<Rightarrow> None
                | Some (month, v2) \<Rightarrow>
                    (case skipDash v2 of
                       None \<Rightarrow> None
                     | Some v3 \<Rightarrow>
                         (case getnum2 v3 of
                            None \<Rightarrow> None
                          | Some (day, v4) \<Rightarrow>
                              if v4 \<noteq> [] then None
                              else if month \<le> 0 \<or> 12 < month then None
                              else if day < 1 \<or> day > daysIn month year then None
                              else Some (year, month, day))))))"

text \<open>
  \<open>sort.Slice\<close> leaves the slice as a permutation of itself that is sorted by \<open>less\<close>. It
  is not stable, but where \<open>less\<close> is a strict total order, as the comparison of
  strings is, elements that are not ordered are equal and the result is unique. The
  model is an insertion sort.
\<close>

fun insertBy :: "('a \<Rightarrow> 'a \<Rightarrow> bool) \<Rightarrow> 'a \<Rightarrow> 'a list \<Rightarrow> 'a list" where
  "insertBy lt x [] = [x]"
| "insertBy lt x (y # ys) =
     (if lt y x then y # insertBy lt x ys else x # y # ys)"

definition sortSlice :: "('a \<Rightarrow> 'a \<Rightarrow> bool) \<Rightarrow> 'a list \<Rightarrow> 'a list" where
  "sortSlice lt xs = foldr (insertBy lt) xs []"

section \<open>The file system\<close>

text \<open>
  The part of the operating system the vault uses. A file system maps cleaned absolute
  paths to nodes; the first binding of a path counts. Two lists inject the failures of
  system calls: on a path in \<open>denied\<close> every call fails with \<open>EACCES\<close>, and in a directory
  in \<open>readOnly\<close> no file can be created or written. A write fails before it changes
  anything.
\<close>

datatype errno = ENOENT | EACCES | EISDIR | ENOTDIR | ENAMETOOLONG

datatype node = RegularFile string | Dir

record FileSystem =
  nodes :: "(string \<times> node) list"
  denied :: "string list"
  readOnly :: "string list"

definition parentDir :: "string \<Rightarrow> string" where
  "parentDir p =
     (let d = rev (drop 1 (dropWhile (\<lambda>c. c \<noteq> CHR ''/'') (rev p)))
      in if d = [] then ''/'' else d)"

definition baseName :: "string \<Rightarrow> string" where
  "baseName p = rev (takeWhile (\<lambda>c. c \<noteq> CHR ''/'') (rev p))"

text \<open>
  Path resolution walks the components of a path from the root. Looking a component up
  in \<open>d\<close> fails with \<open>ENOENT\<close> when \<open>d\<close> does not exist, with \<open>ENOTDIR\<close> when \<open>d\<close> is a regular
  file, and with \<open>ENAMETOOLONG\<close> when the component is longer than 255 bytes; a path
  longer than 4095 bytes fails with \<open>ENAMETOOLONG\<close> as a whole. \<open>walk\<close> gives the first
  such error, or \<open>None\<close> when every component can be looked up in a directory.
\<close>

definition components :: "string \<Rightarrow> string list" where
  "components p = filter (\<lambda>c. c \<noteq> []) (splitSlash p)"

definition childPath :: "string \<Rightarrow> string \<Rightarrow> string" where
  "childPath d c = (if d = ''/'' then d @ c else d @ ''/'' @ c)"

fun walk :: "FileSystem \<Rightarrow> string \<Rightarrow> string list \<Rightarrow> errno option" where
  "walk fs d [] = None"
| "walk fs d (c # cs) =
     (case map_of (nodes fs) d of
        None \<Rightarrow> Some ENOENT
      | Some (RegularFile x) \<Rightarrow> Some ENOTDIR
      | Some Dir \<Rightarrow>
          if length c > 255 then Some ENAMETOOLONG else walk fs (childPath d c) cs)"

definition resolveError :: "FileSystem \<Rightarrow> string \<Rightarrow> errno option" where
  "resolveError fs p =
     (if length p > 4095 then Some ENAMETOOLONG else walk fs ''/'' (components p))"

text \<open>The error of a call on a path to which no node is bound.\<close>

definition missingErrno :: "FileSystem \<Rightarrow> string \<Rightarrow> errno" where
  "missingErrno fs p = (case resolveError fs p of Some e \<Rightarrow> e | None \<Rightarrow> ENOENT)"

definition os_Stat :: "FileSystem \<Rightarrow> string \<Rightarrow> errno + node" where
  "os_Stat fs p =
     (if p \<in> set (denied fs) then Inl EACCES
      else case map_of (nodes fs) p of
        None \<Rightarrow> Inl (missingErrno fs p)
      | Some n \<Rightarrow> Inr n)"

definition os_ReadFile :: "FileSystem \<Rightarrow> string \<Rightarrow> errno + string" where
  "os_ReadFile fs p =
     (if p \<in> set (denied fs) then Inl EACCES
      else case map_of (nodes fs) p of
        None \<Rightarrow> Inl (missingErrno fs p)
      | Some Dir \<Rightarrow> Inl EISDIR
      | Some (RegularFile c) \<Rightarrow> Inr c)"

definition putFile :: "FileSystem \<Rightarrow> string \<Rightarrow> string \<Rightarrow> FileSystem" where
  "putFile fs p c = fs\<lparr>nodes := (p, RegularFile c) # filter (\<lambda>(q, n). q \<noteq> p) (nodes fs)\<rparr>"

text \<open>
  \<open>os.WriteFile\<close>: the error, if any, and the file system after the call. A file that
  does not exist is created when its path resolves: every directory on the way exists
  and the names are within the limits.
\<close>

definition os_WriteFile :: "FileSystem \<Rightarrow> string \<Rightarrow> string \<Rightarrow> errno option \<times> FileSystem" where
  "os_WriteFile fs p c =
     (if p \<in> set (denied fs) \<or> parentDir p \<in> set (readOnly fs) then (Some EACCES, fs)
      else case map_of (nodes fs) p of
        Some Dir \<Rightarrow> (Some EISDIR, fs)
      | Some (RegularFile old) \<Rightarrow> (None, putFile fs p c)
      | None \<Rightarrow>
          (case resolveError fs p of
             Some e \<Rightarrow> (Some e, fs)
           | None \<Rightarrow> (None, putFile fs p c)))"

text \<open>
  The paths at which \<open>os.WriteFile\<close> can create a file: system calls do not fail on the
  path, its directory is not read-only, and the path resolves.
\<close>

definition creatable :: "FileSystem \<Rightarrow> string \<Rightarrow> bool" where
  "creatable fs p \<longleftrightarrow>
     p \<notin> set (denied fs) \<and> parentDir p \<notin> set (readOnly fs) \<and> resolveError fs p = None"

text \<open>
  \<open>os.ReadDir\<close>: the children of a directory with their \<open>IsDir\<close> flag, sorted by name.
\<close>

definition children :: "FileSystem \<Rightarrow> string \<Rightarrow> (string \<times> bool) list" where
  "children fs d =
     map (\<lambda>p. (baseName p, map_of (nodes fs) p = Some Dir))
       (filter (\<lambda>p. parentDir p = d \<and> p \<noteq> d) (remdups (map fst (nodes fs))))"

definition os_ReadDir :: "FileSystem \<Rightarrow> string \<Rightarrow> errno + (string \<times> bool) list" where
  "os_ReadDir fs d =
     (if d \<in> set (denied fs) then Inl EACCES
      else case map_of (nodes fs) d of
        None \<Rightarrow> Inl (missingErrno fs d)
      | Some (RegularFile c) \<Rightarrow> Inl ENOTDIR
      | Some Dir \<Rightarrow> Inr (sortSlice (\<lambda>a b. fst a < fst b) (children fs d)))"

section \<open>The vault (vault/vault.go)\<close>

record Vault =
  Directory :: string

text \<open>The errors the vault returns, one constructor for each \<open>fmt.Errorf\<close> of the source.\<close>

datatype vaultError =
    AlreadyExists string
  | NotExist string
  | ReadFailed string errno
  | WriteFailed string errno
  | ReadDirFailed string errno

definition DatePath :: "Vault \<Rightarrow> string \<Rightarrow> string" where
  "DatePath v date = Join (Directory v) (date @ ''.md'')"

definition EntryExists :: "FileSystem \<Rightarrow> Vault \<Rightarrow> string \<Rightarrow> bool" where
  "EntryExists fs v date =
     (case os_Stat fs (DatePath v date) of
        Inl e \<Rightarrow> False
      | Inr info \<Rightarrow> True)"

definition ReadEntry :: "FileSystem \<Rightarrow> Vault \<Rightarrow> string \<Rightarrow> vaultError + string" where
  "ReadEntry fs v date =
     (case os_ReadFile fs (DatePath v date) of
        Inl e \<Rightarrow> if e = ENOENT then Inl (NotExist date) else Inl (ReadFailed date e)
      | Inr content \<Rightarrow> Inr content)"

definition WriteEntry ::
  "FileSystem \<Rightarrow> Vault \<Rightarrow> string \<Rightarrow> string \<Rightarrow> vaultError option \<times> FileSystem" where
  "WriteEntry fs v date content =
     (case os_WriteFile fs (DatePath v date) content of
        (Some e, fs') \<Rightarrow> (Some (WriteFailed date e), fs')
      | (None, fs') \<Rightarrow> (None, fs'))"

definition CreateEntry :: "FileSystem \<Rightarrow> Vault \<Rightarrow> string \<Rightarrow> vaultError option \<times> FileSystem" where
  "CreateEntry fs v date =
     (if EntryExists fs v date then (Some (AlreadyExists date), fs)
      else WriteEntry fs v date (''# '' @ date @ ''\<newline>\<newline>''))"

definition isValidDateFormat :: "string \<Rightarrow> bool" where
  "isValidDateFormat filename =
     (if \<not> HasSuffix filename ''.md'' then False
      else (case parseDate (TrimSuffix filename ''.md'') of
              None \<Rightarrow> False
            | Some t \<Rightarrow> True))"

text \<open>The loop of \<open>ListEntries\<close> over the directory entries.\<close>

fun mdFiles :: "(string \<times> bool) list \<Rightarrow> string list" where
  "mdFiles [] = []"
| "mdFiles ((name, isDir) # rest) =
     (if isDir then mdFiles rest
      else if HasSuffix name ''.md'' \<and> isValidDateFormat name then name # mdFiles rest
      else mdFiles rest)"

definition ListEntries :: "FileSystem \<Rightarrow> Vault \<Rightarrow> vaultError + string list" where
  "ListEntries fs v =
     (case os_ReadDir fs (Directory v) of
        Inl e \<Rightarrow> Inl (ReadDirFailed (Directory v) e)
      | Inr ents \<Rightarrow> Inr (sortSlice (\<lambda>a b. a > b) (mdFiles ents)))"

text \<open>
  The entry file names as the specification words them: thirteen bytes
  \<open>YYYY-MM-DD.md\<close> of digits, two \<open>-\<close> and the extension, where the month is 1 to 12
  and the day is 1 to the length of that month in the Gregorian calendar.
\<close>

definition monthLength :: "nat \<Rightarrow> nat \<Rightarrow> nat" where
  "monthLength year month =
     (if month = 2 then
        (if year mod 400 = 0 \<or> (year mod 4 = 0 \<and> year mod 100 \<noteq> 0) then 29 else 28)
      else if month = 4 \<or> month = 6 \<or> month = 9 \<or> month = 11 then 30
      else 31)"

definition realDate :: "nat \<Rightarrow> nat \<Rightarrow> nat \<Rightarrow> bool" where
  "realDate year month day \<longleftrightarrow>
     1 \<le> month \<and> month \<le> 12 \<and> 1 \<le> day \<and> day \<le> monthLength year month"

definition decimal :: "string \<Rightarrow> nat" where
  "decimal ds = foldl (\<lambda>acc c. acc * 10 + digitVal c) 0 ds"

fun isEntryFileName :: "string \<Rightarrow> bool" where
  "isEntryFileName [y1, y2, y3, y4, s1, m1, m2, s2, d1, d2, e1, e2, e3] =
     (list_all isDigit [y1, y2, y3, y4, m1, m2, d1, d2] \<and>
      s1 = CHR ''-'' \<and> s2 = CHR ''-'' \<and> [e1, e2, e3] = ''.md'' \<and>
      realDate (decimal [y1, y2, y3, y4]) (decimal [m1, m2]) (decimal [d1, d2]))"
| "isEntryFileName s = False"

text \<open>
  Three states of the journal directory \<open>/j\<close>: the listing example of the
  specification; a directory with names that are not entry names and with a directory
  named like an entry; and the first one with \<open>/j\<close> made read-only.
\<close>

definition journal :: Vault where
  "journal = \<lparr>Directory = ''/j''\<rparr>"

definition exampleFS :: FileSystem where
  "exampleFS =
     \<lparr>nodes = [(''/'', Dir), (''/j'', Dir),
               (''/j/2024-01-10.md'', RegularFile ''ten''),
               (''/j/2024-01-20.md'', RegularFile ''twenty''),
               (''/j/2024-01-15.md'', RegularFile ''fifteen''),
               (''/j/not-a-date.md'', RegularFile ''x''),
               (''/j/readme.md'', RegularFile ''y'')],
      denied = [], readOnly = []\<rparr>"

definition datesFS :: FileSystem where
  "datesFS =
     \<lparr>nodes = [(''/'', Dir), (''/j'', Dir),
               (''/j/2024-02-29.md'', RegularFile ''leap''),
               (''/j/2023-02-29.md'', RegularFile ''a''),
               (''/j/2024-13-01.md'', RegularFile ''b''),
               (''/j/2024-1-5.md'', RegularFile ''c''),
               (''/j/README.md'', RegularFile ''d''),
               (''/j/2024-03-01.md'', Dir)],
      denied = [], readOnly = []\<rparr>"

definition readOnlyFS :: FileSystem where
  "readOnlyFS = exampleFS\<lparr>readOnly := [''/j'']\<rparr>"

section \<open>Title and preview of an entry (tui/model.go)\<close>

text \<open>
  The first loop of \<open>extractTitleAndPreview\<close>, from index \<open>i\<close> on: the title and the
  index the preview starts at.
\<close>

function titleLoop :: "string list \<Rightarrow> nat \<Rightarrow> string \<times> nat" where
  "titleLoop lines i =
     (if i < length lines then
        (let trimmed = TrimSpace (lines ! i)
         in if HasPrefix trimmed ''# '' then (TrimSpace (drop 2 trimmed), i + 1)
            else titleLoop lines (i + 1))
      else (''(untitled)'', 0))"
  by pat_completeness auto
termination
  by (relation "measure (\<lambda>(lines, i). length lines - i)") auto

text \<open>The second loop, with the loop index, \<open>previewCount\<close> and \<open>preview\<close> as arguments.\<close>

function previewLoop :: "string list \<Rightarrow> int \<Rightarrow> nat \<Rightarrow> int \<Rightarrow> string list \<Rightarrow> string list" where
  "previewLoop lines n i previewCount preview =
     (if i < length lines \<and> previewCount < n then
        (let line = lines ! i
         in if TrimSpace line \<noteq> [] \<or> previewCount > 0
            then previewLoop lines n (i + 1) (previewCount + 1) (preview @ [line])
            else previewLoop lines n (i + 1) previewCount preview)
      else preview)"
  by pat_completeness auto
termination
  by (relation "measure (\<lambda>(lines, n, i, c, p). length lines - i)") auto

declare titleLoop.simps [simp del] previewLoop.simps [simp del]

definition extractTitleAndPreview :: "string \<Rightarrow> int \<Rightarrow> string \<times> string list" where
  "extractTitleAndPreview content n =
     (let lines = SplitLines content;
          (title, previewStart) = titleLoop lines 0
      in (title, previewLoop lines n previewStart 0 []))"

text \<open>
  The extraction as the specification words it: the heading is the first line whose
  trimmed text starts with \<open># \<close>; the preview skips the blank lines that follow the
  heading (all lines, when there is none) and then takes the next \<open>n\<close> lines, blank
  or not.
\<close>

definition isHeading :: "string \<Rightarrow> bool" where
  "isHeading line \<longleftrightarrow> HasPrefix (TrimSpace line) ''# ''"

definition isBlank :: "string \<Rightarrow> bool" where
  "isBlank line \<longleftrightarrow> TrimSpace line = []"

definition specTitle :: "string list \<Rightarrow> string" where
  "specTitle lines =
     (case dropWhile (\<lambda>l. \<not> isHeading l) lines of
        [] \<Rightarrow> ''(untitled)''
      | h # rest \<Rightarrow> TrimSpace (drop 2 (TrimSpace h)))"

definition linesAfterHeading :: "string list \<Rightarrow> string list" where
  "linesAfterHeading lines =
     (case dropWhile (\<lambda>l. \<not> isHeading l) lines of
        [] \<Rightarrow> lines
      | h # rest \<Rightarrow> rest)"

definition specPreview :: "string list \<Rightarrow> int \<Rightarrow> string list" where
  "specPreview lines n = take (nat n) (dropWhile isBlank (linesAfterHeading lines))"

section \<open>The timeline model (tui/model.go)\<close>

record Entry =
  Date :: string
  Path :: string
  Title :: string
  Preview :: "string list"
  Expanded :: bool

record Model =
  entries :: "Entry list"
  cursor :: int
  viewportHeight :: int
  scrollOffset :: int
  quitting :: bool
  loading :: bool
  err :: "string option"
  vaultDir :: string
  previewLines :: int

text \<open>A \<open>tea.Cmd\<close> returned by the update step is either \<open>nil\<close> or \<open>tea.Quit\<close>.\<close>

datatype Cmd = NoCmd | Quit

text \<open>A run-time panic of the Go program: indexing a slice out of range.\<close>

datatype panic = IndexOutOfRange

datatype Msg =
    KeyMsg string
  | WindowSizeMsg (Width: int) (Height: int)
  | LoadEntriesMsg "Entry list" "string option"
  | OtherMsg

definition NewModel :: "string \<Rightarrow> int \<Rightarrow> Model" where
  "NewModel dir n =
     \<lparr>entries = [], cursor = 0, viewportHeight = 20, scrollOffset = 0,
      quitting = False, loading = True, err = None, vaultDir = dir, previewLines = n\<rparr>"

section \<open>The update step (tui/update.go)\<close>

text \<open>
  \<open>adjustScroll\<close> mutates the model through a pointer receiver; here it returns the
  updated model. The four assignments to \<open>scrollOffset\<close> happen in the source's order.
\<close>

definition adjustScroll :: "Model \<Rightarrow> Model" where
  "adjustScroll m =
     (let visibleHeight = i64 (viewportHeight m - 4);
          m1 = (if cursor m < scrollOffset m then m\<lparr>scrollOffset := cursor m\<rparr> else m);
          m2 = (if cursor m1 \<ge> i64 (scrollOffset m1 + visibleHeight)
                then m1\<lparr>scrollOffset := i64 (i64 (cursor m1 - visibleHeight) + 1)\<rparr>
                else m1);
          m3 = (if scrollOffset m2 < 0 then m2\<lparr>scrollOffset := 0\<rparr> else m2);
          maxScroll0 = i64 (len (entries m3) - visibleHeight);
          maxScroll = (if maxScroll0 < 0 then 0 else maxScroll0)
      in if scrollOffset m3 > maxScroll then m3\<lparr>scrollOffset := maxScroll\<rparr> else m3)"

definition toggleExpanded :: "Entry \<Rightarrow> Entry" where
  "toggleExpanded e = e\<lparr>Expanded := \<not> Expanded e\<rparr>"

text \<open>
  The key is given by the value of \<open>msg.String()\<close> the source switches on. Indexing
  \<open>m.entries[m.cursor]\<close> with a negative cursor panics in Go.
\<close>

definition handleKeyPress :: "Model \<Rightarrow> string \<Rightarrow> panic + Model \<times> Cmd" where
  "handleKeyPress m key =
     (if len (entries m) = 0 then
        (if key = ''q'' \<or> key = ''ctrl+c'' then Inr (m\<lparr>quitting := True\<rparr>, Quit)
         else Inr (m, NoCmd))
      else if key = ''q'' \<or> key = ''ctrl+c'' then Inr (m\<lparr>quitting := True\<rparr>, Quit)
      else if key = ''up'' \<or> key = ''k'' then
        (if cursor m > 0
         then Inr (adjustScroll (m\<lparr>cursor := i64 (cursor m - 1)\<rparr>), NoCmd)
         else Inr (m, NoCmd))
      else if key = ''down'' \<or> key = ''j'' then
        (if cursor m < len (entries m) - 1
         then Inr (adjustScroll (m\<lparr>cursor := i64 (cursor m + 1)\<rparr>), NoCmd)
         else Inr (m, NoCmd))
      else if key = ''enter'' \<or> key = '' '' then
        (if cursor m < len (entries m) then
           (if cursor m < 0 then Inl IndexOutOfRange
            else Inr (m\<lparr>entries := (entries m)[nat (cursor m) :=
                        toggleExpanded (entries m ! nat (cursor m))]\<rparr>, NoCmd))
         else Inr (m, NoCmd))
      else if key = ''pgup'' then
        (let c = i64 (cursor m - 10);
             c' = (if c < 0 then 0 else c)
         in Inr (adjustScroll (m\<lparr>cursor := c'\<rparr>), NoCmd))
      else if key = ''pgdown'' then
        (let c = i64 (cursor m + 10);
             c' = (if c \<ge> len (entries m) then len (entries m) - 1 else c)
         in Inr (adjustScroll (m\<lparr>cursor := c'\<rparr>), NoCmd))
      else if key = ''home'' then Inr (adjustScroll (m\<lparr>cursor := 0\<rparr>), NoCmd)
      else if key = ''end'' then
        Inr (adjustScroll (m\<lparr>cursor := len (entries m) - 1\<rparr>), NoCmd)
      else Inr (m, NoCmd))"

definition Update :: "Model \<Rightarrow> Msg \<Rightarrow> panic + Model \<times> Cmd" where
  "Update m msg =
     (case msg of
        KeyMsg key \<Rightarrow> handleKeyPress m key
      | WindowSizeMsg w h \<Rightarrow> Inr (m\<lparr>viewportHeight := i64 (h - 6)\<rparr>, NoCmd)
      | LoadEntriesMsg es e \<Rightarrow>
          (case e of
             Some x \<Rightarrow> Inr (m\<lparr>loading := False, err := Some x\<rparr>, NoCmd)
           | None \<Rightarrow> Inr (m\<lparr>loading := False, entries := es\<rparr>, NoCmd))
      | OtherMsg \<Rightarrow> Inr (m, NoCmd))"

text \<open>Delivering a sequence of messages to the event loop, one at a time; a panic ends the run.\<close>

fun deliver :: "Model \<Rightarrow> Msg list \<Rightarrow> panic + Model" where
  "deliver m [] = Inr m"
| "deliver m (x # xs) =
     (case Update m x of
        Inl p \<Rightarrow> Inl p
      | Inr (m', c) \<Rightarrow> deliver m' xs)"

text \<open>
  The two properties of the scroll invariant, with the visible height
  \<open>max 0 (viewportHeight - 4)\<close>.
\<close>

definition cursorVisible :: "Model \<Rightarrow> bool" where
  "cursorVisible m \<longleftrightarrow>
     scrollOffset m \<le> cursor m \<and>
     cursor m < scrollOffset m + max 0 (viewportHeight m - 4)"

definition scrollBounded :: "Model \<Rightarrow> bool" where
  "scrollBounded m \<longleftrightarrow>
     scrollOffset m \<le> max 0 (len (entries m) - max 0 (viewportHeight m - 4))"

section \<open>Rendering (tui/view.go)\<close>

text \<open>
  The lipgloss styles are values of an external library; their \<open>Render\<close> functions are
  parameters of the view. \<open>plainStyle\<close> is the style built in place for a row that is
  not selected.
\<close>

record Styles =
  titleStyle :: "string \<Rightarrow> string"
  selectedStyle :: "string \<Rightarrow> string"
  dateStyle :: "string \<Rightarrow> string"
  iconStyle :: "string \<Rightarrow> string"
  previewStyle :: "string \<Rightarrow> string"
  errorStyle :: "string \<Rightarrow> string"
  helpStyle :: "string \<Rightarrow> string"
  plainStyle :: "string \<Rightarrow> string"

text \<open>The string literals of the view that are not ASCII, as their UTF-8 bytes.\<close>

definition titleText :: string where
  "titleText = [CHR 0xF0, CHR 0x9F, CHR 0x93, CHR 0x96] @ '' Journal Timeline''"

definition iconText :: string where
  "iconText = [CHR 0xF0, CHR 0x9F, CHR 0x93, CHR 0x85]"

definition helpText :: string where
  "helpText = [CHR 0xE2, CHR 0x86, CHR 0x91] @ ''/k up '' @ [CHR 0xE2, CHR 0x80, CHR 0xA2] @
              '' '' @ [CHR 0xE2, CHR 0x86, CHR 0x93] @ ''/j down '' @
              [CHR 0xE2, CHR 0x80, CHR 0xA2] @ '' enter/space toggle '' @
              [CHR 0xE2, CHR 0x80, CHR 0xA2] @ '' q quit''"

definition emptyText :: string where
  "emptyText = ''No journal entries found. Use '' @ [CHR 0x27] @ ''logmd today'' @
               [CHR 0x27] @ '' to create your first entry.''"

text \<open>The loop of \<open>renderEntry\<close> over the preview lines: blank lines are not written.\<close>

fun previewText :: "Styles \<Rightarrow> string list \<Rightarrow> string" where
  "previewText st [] = []"
| "previewText st (previewLine # rest) =
     (if TrimSpace previewLine \<noteq> []
      then previewStyle st (''  '' @ previewLine) @ ''\<newline>'' @ previewText st rest
      else previewText st rest)"

definition renderEntry :: "Styles \<Rightarrow> Entry \<Rightarrow> bool \<Rightarrow> string" where
  "renderEntry st entry selected =
     (let line = iconStyle st iconText @ '' '' @ dateStyle st (Date entry) @ '' '' @ Title entry;
          line' = (if selected then selectedStyle st line else plainStyle st line)
      in line' @
         (if Expanded entry \<and> len (Preview entry) > 0
          then ''\<newline>'' @ previewText st (Preview entry)
          else []))"

definition visibleRange :: "Model \<Rightarrow> int \<times> int" where
  "visibleRange m =
     (let start = scrollOffset m;
          end0 = i64 (i64 (start + viewportHeight m) - 4);
          end1 = (if end0 \<ge> len (entries m) then len (entries m) - 1 else end0)
      in (start, end1))"

text \<open>
  The loop of \<open>View\<close> over the entries, from index \<open>i\<close> on: for each index visited, the
  text written for it (the rendered entry and a line feed). Reading \<open>m.entries[i]\<close> at
  a negative index panics.
\<close>

function entryRows :: "Styles \<Rightarrow> Model \<Rightarrow> int \<Rightarrow> int \<Rightarrow> panic + (int \<times> string) list" where
  "entryRows st m end1 i =
     (if i \<le> end1 \<and> i < len (entries m) then
        (if i < 0 then Inl IndexOutOfRange
         else (case entryRows st m end1 (i + 1) of
                 Inl p \<Rightarrow> Inl p
               | Inr rows \<Rightarrow>
                   Inr ((i, renderEntry st (entries m ! nat i) (i = cursor m) @ ''\<newline>'')
                        # rows)))
      else Inr [])"
  by pat_completeness auto
termination
  by (relation "measure (\<lambda>(st, m, end1, i). nat (len (entries m) - i))") auto

declare entryRows.simps [simp del]

definition View :: "Styles \<Rightarrow> Model \<Rightarrow> panic + string" where
  "View st m =
     (case err m of
        Some e \<Rightarrow> Inr (errorStyle st (''Error: '' @ e))
      | None \<Rightarrow>
          if loading m then Inr ''Loading journal entries...''
          else if len (entries m) = 0 then Inr emptyText
          else (case visibleRange m of
                  (start, end1) \<Rightarrow>
                    (case entryRows st m end1 start of
                       Inl p \<Rightarrow> Inl p
                     | Inr rows \<Rightarrow>
                         Inr (titleStyle st titleText @ ''\<newline>\<newline>'' @
                              concat (map snd rows) @ ''\<newline>'' @
                              helpStyle st helpText))))"

text \<open>
  Styles for the examples: a selected row is marked with \<open>>\<close>, any other row with a
  space, and the other styles leave the text as it is.
\<close>

definition markStyles :: Styles where
  "markStyles =
     \<lparr>titleStyle = (\<lambda>s. s), selectedStyle = (\<lambda>s. ''>'' @ s), dateStyle = (\<lambda>s. s),
      iconStyle = (\<lambda>s. s), previewStyle = (\<lambda>s. s), errorStyle = (\<lambda>s. s),
      helpStyle = (\<lambda>s. s), plainStyle = (\<lambda>s. '' '' @ s)\<rparr>"



text \<open>Three journal entries used in the examples below.\<close>

definition entryA :: Entry where
  "entryA = \<lparr>Date = ''2024-01-20'', Path = ''/j/2024-01-20.md'', Title = ''A'',
             Preview = [''a''], Expanded = False\<rparr>"

definition entryB :: Entry where
  "entryB = \<lparr>Date = ''2024-01-15'', Path = ''/j/2024-01-15.md'', Title = ''B'',
             Preview = [''b'', [], ''  '', ''c''], Expanded = True\<rparr>"

definition entryC :: Entry where
  "entryC = \<lparr>Date = ''2024-01-10'', Path = ''/j/2024-01-10.md'', Title = ''C'',
             Preview = [], Expanded = False\<rparr>"

text \<open>
  The model after \<open>NewModel\<close>, a resize to a terminal of 12 rows and the load of the
  three entries: viewport height 6, cursor and scroll offset 0.
\<close>

definition loadedThree :: Model where
  "loadedThree = (NewModel ''/j'' 5)\<lparr>viewportHeight := 6, loading := False,
                   entries := [entryA, entryB, entryC]\<rparr>"

section \<open>Listing the entries\<close>

lemma set_insertBy: "set (insertBy lt x ys) = insert x (set ys)"
  by (induction ys) auto

lemma set_sortSlice: "set (sortSlice lt xs) = set xs"
  by (induction xs) (simp_all add: sortSlice_def set_insertBy)

lemma sorted_insertBy_desc:
  fixes x :: "'a::linorder"
  shows "sorted_wrt (\<lambda>a b. b \<le> a) ys \<Longrightarrow> sorted_wrt (\<lambda>a b. b \<le> a) (insertBy (\<lambda>a b. a > b) x ys)"
  by (induction ys) (auto simp: set_insertBy)

lemma sorted_sortSlice_desc:
  fixes xs :: "'a::linorder list"
  shows "sorted_wrt (\<lambda>a b. b \<le> a) (sortSlice (\<lambda>a b. a > b) xs)"
  by (induction xs) (simp_all add: sortSlice_def sorted_insertBy_desc)

lemma set_mdFiles:
  "set (mdFiles ents) =
     {name. (name, False) \<in> set ents \<and> HasSuffix name ''.md'' \<and> isValidDateFormat name}"
  by (induction ents rule: mdFiles.induct) auto

lemma isLeap_gregorian:
  "isLeap year \<longleftrightarrow> year mod 400 = 0 \<or> (year mod 4 = 0 \<and> year mod 100 \<noteq> 0)"
  unfolding isLeap_def by presburger

lemma daysIn_monthLength:
  "1 \<le> month \<Longrightarrow> month \<le> 12 \<Longrightarrow> daysIn month year = monthLength year month"
proof -
  assume "1 \<le> month" "month \<le> 12"
  then have "month = 1 \<or> month = 2 \<or> month = 3 \<or> month = 4 \<or> month = 5 \<or> month = 6 \<or>
             month = 7 \<or> month = 8 \<or> month = 9 \<or> month = 10 \<or> month = 11 \<or> month = 12"
    by arith
  then show ?thesis
    by (elim disjE) (simp_all add: daysIn_def monthLength_def daysBefore_def isLeap_gregorian)
qed


lemma HasSuffix_iff: "HasSuffix s p \<longleftrightarrow> (\<exists>d. s = d @ p)"
proof
  assume "HasSuffix s p"
  then have "s = take (length s - length p) s @ p"
    by (metis HasSuffix_def append_take_drop_id)
  then show "\<exists>d. s = d @ p" ..
next
  assume "\<exists>d. s = d @ p"
  then show "HasSuffix s p" by (auto simp: HasSuffix_def)
qed

lemma TrimSuffix_append: "TrimSuffix (d @ p) p = d"
  by (simp add: TrimSuffix_def HasSuffix_def)

lemma at_least_four:
  "\<not> length v < 4 \<Longrightarrow> \<exists>a b c d r. v = a # b # c # d # r"
proof -
  assume "\<not> length v < 4"
  then obtain a v1 where 1: "v = a # v1" "3 \<le> length v1" by (cases v) auto
  then obtain b v2 where 2: "v1 = b # v2" "2 \<le> length v2" by (cases v1) auto
  then obtain c v3 where 3: "v2 = c # v3" "1 \<le> length v3" by (cases v2) auto
  then obtain d r where 4: "v3 = d # r" by (cases v3) auto
  from 1 2 3 4 show ?thesis by blast
qed

lemma skipDash_Some: "skipDash s = Some r \<longleftrightarrow> s = CHR ''-'' # r"
  by (auto simp: skipDash_def split: list.splits)

lemma getnum2_Some:
  "getnum2 s = Some (n, r) \<longleftrightarrow>
     (\<exists>a b. s = a # b # r \<and> isDigit a \<and> isDigit b \<and> n = digitVal a * 10 + digitVal b)"
  by (auto simp: getnum2_def split: list.splits)

lemma parseDate_shape:
  assumes "parseDate v = Some (year, month, day)"
  shows "\<exists>y1 y2 y3 y4 m1 m2 d1 d2.
           v = [y1, y2, y3, y4, CHR ''-'', m1, m2, CHR ''-'', d1, d2] \<and>
           list_all isDigit [y1, y2, y3, y4, m1, m2, d1, d2] \<and>
           year = decimal [y1, y2, y3, y4] \<and> month = decimal [m1, m2] \<and>
           day = decimal [d1, d2] \<and>
           1 \<le> month \<and> month \<le> 12 \<and> 1 \<le> day \<and> day \<le> daysIn month year"
proof -
  from assms have l: "\<not> length v < 4"
    by (auto simp: parseDate_def split: if_splits)
  from at_least_four [OF l] obtain y1 y2 y3 y4 r where v: "v = y1 # y2 # y3 # y4 # r" by blast
  from assms obtain v1 v2 v3 v4 where
    y: "atoi4 [y1, y2, y3, y4] = Some year" and
    s1: "skipDash r = Some v1" and
    m: "getnum2 v1 = Some (month, v2)" and
    s2: "skipDash v2 = Some v3" and
    d: "getnum2 v3 = Some (day, v4)" and
    e: "v4 = []" and
    rng: "\<not> (month \<le> 0 \<or> 12 < month)" "\<not> (day < 1 \<or> day > daysIn month year)"
    by (auto simp: parseDate_def v split: if_splits option.splits)
  from m obtain m1 m2 where m': "v1 = m1 # m2 # v2" "isDigit m1" "isDigit m2"
    "month = digitVal m1 * 10 + digitVal m2" by (auto simp: getnum2_Some)
  from d obtain d1 d2 where d': "v3 = d1 # d2 # v4" "isDigit d1" "isDigit d2"
    "day = digitVal d1 * 10 + digitVal d2" by (auto simp: getnum2_Some)
  from y have y': "list_all isDigit [y1, y2, y3, y4]" "year = decimal [y1, y2, y3, y4]"
    by (auto simp: atoi4_def decimal_def split: if_splits)
  from s1 s2 have "r = CHR ''-'' # v1" "v2 = CHR ''-'' # v3" by (simp_all add: skipDash_Some)
  with v m' d' e y' rng show ?thesis
    by (auto simp: decimal_def)
qed

lemma parseDate_of_shape:
  assumes "list_all isDigit [y1, y2, y3, y4, m1, m2, d1, d2]"
    and "realDate (decimal [y1, y2, y3, y4]) (decimal [m1, m2]) (decimal [d1, d2])"
  shows "parseDate [y1, y2, y3, y4, CHR ''-'', m1, m2, CHR ''-'', d1, d2] =
           Some (decimal [y1, y2, y3, y4], decimal [m1, m2], decimal [d1, d2])"
proof -
  from assms(2) have r: "1 \<le> decimal [m1, m2]" "decimal [m1, m2] \<le> 12"
    "1 \<le> decimal [d1, d2]"
    "decimal [d1, d2] \<le> monthLength (decimal [y1, y2, y3, y4]) (decimal [m1, m2])"
    by (simp_all add: realDate_def)
  from r(1,2) have dl: "daysIn (decimal [m1, m2]) (decimal [y1, y2, y3, y4]) =
      monthLength (decimal [y1, y2, y3, y4]) (decimal [m1, m2])"
    by (rule daysIn_monthLength)
  have a: "atoi4 [y1, y2, y3, y4] = Some (decimal [y1, y2, y3, y4])"
    using assms(1) by (simp add: atoi4_def decimal_def)
  have g1: "getnum2 (m1 # m2 # CHR ''-'' # [d1, d2]) = Some (decimal [m1, m2], CHR ''-'' # [d1, d2])"
    using assms(1) by (simp add: getnum2_def decimal_def)
  have g2: "getnum2 [d1, d2] = Some (decimal [d1, d2], [])"
    using assms(1) by (simp add: getnum2_def decimal_def)
  have sk: "\<And>s. skipDash (CHR ''-'' # s) = Some s" by (simp add: skipDash_def)
  show ?thesis
    using assms(1) r
    by (simp add: parseDate_def a g1 g2 sk dl)
qed

lemma isEntryFileName_shape:
  "isEntryFileName s \<longleftrightarrow>
     (\<exists>y1 y2 y3 y4 m1 m2 d1 d2.
        s = [y1, y2, y3, y4, CHR ''-'', m1, m2, CHR ''-'', d1, d2] @ ''.md'' \<and>
        list_all isDigit [y1, y2, y3, y4, m1, m2, d1, d2] \<and>
        realDate (decimal [y1, y2, y3, y4]) (decimal [m1, m2]) (decimal [d1, d2]))"
proof
  assume "isEntryFileName s"
  then show "\<exists>y1 y2 y3 y4 m1 m2 d1 d2.
        s = [y1, y2, y3, y4, CHR ''-'', m1, m2, CHR ''-'', d1, d2] @ ''.md'' \<and>
        list_all isDigit [y1, y2, y3, y4, m1, m2, d1, d2] \<and>
        realDate (decimal [y1, y2, y3, y4]) (decimal [m1, m2]) (decimal [d1, d2])"
    by (rule isEntryFileName.elims(2)) auto
next
  assume "\<exists>y1 y2 y3 y4 m1 m2 d1 d2.
        s = [y1, y2, y3, y4, CHR ''-'', m1, m2, CHR ''-'', d1, d2] @ ''.md'' \<and>
        list_all isDigit [y1, y2, y3, y4, m1, m2, d1, d2] \<and>
        realDate (decimal [y1, y2, y3, y4]) (decimal [m1, m2]) (decimal [d1, d2])"
  then show "isEntryFileName s" by auto
qed

lemma isValidDateFormat_iff: "isValidDateFormat s \<longleftrightarrow> isEntryFileName s"
proof
  assume v: "isValidDateFormat s"
  then have "HasSuffix s ''.md''" by (auto simp: isValidDateFormat_def split: if_splits)
  then obtain d where s: "s = d @ ''.md''" by (auto simp: HasSuffix_iff)
  from v obtain year month day where p: "parseDate d = Some (year, month, day)"
    using TrimSuffix_append [of d "''.md''"]
    by (auto simp: isValidDateFormat_def s split: if_splits option.splits)
  from parseDate_shape [OF p] obtain y1 y2 y3 y4 m1 m2 d1 d2 where
    sh: "d = [y1, y2, y3, y4, CHR ''-'', m1, m2, CHR ''-'', d1, d2]"
      "list_all isDigit [y1, y2, y3, y4, m1, m2, d1, d2]"
      "year = decimal [y1, y2, y3, y4]" "month = decimal [m1, m2]" "day = decimal [d1, d2]"
      "1 \<le> month" "month \<le> 12" "1 \<le> day" "day \<le> daysIn month year"
    by blast
  from sh(6-9) have "realDate year month day"
    by (simp add: realDate_def daysIn_monthLength)
  with sh(1-5) s show "isEntryFileName s"
    unfolding isEntryFileName_shape by blast
next
  assume "isEntryFileName s"
  then obtain y1 y2 y3 y4 m1 m2 d1 d2 where
    s: "s = [y1, y2, y3, y4, CHR ''-'', m1, m2, CHR ''-'', d1, d2] @ ''.md''" and
    dg: "list_all isDigit [y1, y2, y3, y4, m1, m2, d1, d2]" and
    rd: "realDate (decimal [y1, y2, y3, y4]) (decimal [m1, m2]) (decimal [d1, d2])"
    unfolding isEntryFileName_shape by blast
  have h: "HasSuffix s ''.md''" unfolding HasSuffix_iff s by blast
  have t: "TrimSuffix s ''.md'' = [y1, y2, y3, y4, CHR ''-'', m1, m2, CHR ''-'', d1, d2]"
    unfolding s by (rule TrimSuffix_append)
  show "isValidDateFormat s"
    by (simp add: isValidDateFormat_def h t parseDate_of_shape [OF dg rd])
qed


text \<open>
  C2. When the directory can be read, \<open>ListEntries\<close> returns, and a name is in the result
  if and only if it is the name of a child that is not a directory and has the form
  \<open>YYYY-MM-DD.md\<close> with a real Gregorian date.
\<close>

theorem ListEntries_accepts_entry_names:
  assumes "os_ReadDir fs (Directory v) = Inr ents"
  shows "\<exists>names. ListEntries fs v = Inr names \<and>
           (\<forall>s. s \<in> set names \<longleftrightarrow> (s, False) \<in> set ents \<and> isEntryFileName s)"
proof -
  have "ListEntries fs v = Inr (sortSlice (\<lambda>a b. a > b) (mdFiles ents))"
    using assms by (simp add: ListEntries_def)
  moreover have "\<forall>s. s \<in> set (sortSlice (\<lambda>a b. a > b) (mdFiles ents)) \<longleftrightarrow>
                   (s, False) \<in> set ents \<and> isEntryFileName s"
  proof -
    have "HasSuffix s ''.md''" if "isValidDateFormat s" for s
      using that by (auto simp: isValidDateFormat_def split: if_splits)
    then show ?thesis
      by (auto simp: set_sortSlice set_mdFiles isValidDateFormat_iff [symmetric])
  qed
  ultimately show ?thesis by blast
qed

text \<open>
  The examples of the claim: of the files \<open>2024-02-29.md\<close>, \<open>2023-02-29.md\<close>,
  \<open>2024-13-01.md\<close>, \<open>2024-1-5.md\<close> and \<open>README.md\<close> only the first is listed, and the
  directory \<open>2024-03-01.md\<close> is not.
\<close>

theorem ListEntries_accepts_entry_names_witness:
  "os_ReadDir datesFS (Directory journal) =
     Inr [(''2023-02-29.md'', False), (''2024-02-29.md'', False), (''2024-03-01.md'', True),
          (''2024-1-5.md'', False), (''2024-13-01.md'', False), (''README.md'', False)] \<and>
   (\<exists>names. ListEntries datesFS journal = Inr names \<and>
      ''2024-02-29.md'' \<in> set names \<and> ''2023-02-29.md'' \<notin> set names \<and>
      ''2024-13-01.md'' \<notin> set names \<and> ''2024-1-5.md'' \<notin> set names \<and>
      ''README.md'' \<notin> set names \<and> ''2024-03-01.md'' \<notin> set names)"
proof -
  have r: "os_ReadDir datesFS (Directory journal) =
     Inr [(''2023-02-29.md'', False), (''2024-02-29.md'', False), (''2024-03-01.md'', True),
          (''2024-1-5.md'', False), (''2024-13-01.md'', False), (''README.md'', False)]"
    by code_simp
  have e: "isEntryFileName ''2024-02-29.md''" "\<not> isEntryFileName ''2023-02-29.md''"
    "\<not> isEntryFileName ''2024-13-01.md''" "\<not> isEntryFileName ''2024-1-5.md''"
    "\<not> isEntryFileName ''README.md''"
    by code_simp+
  from ListEntries_accepts_entry_names [OF r] obtain names where
    n: "ListEntries datesFS journal = Inr names"
       "\<forall>s. s \<in> set names \<longleftrightarrow>
          (s, False) \<in> set [(''2023-02-29.md'', False), (''2024-02-29.md'', False),
             (''2024-03-01.md'', True), (''2024-1-5.md'', False), (''2024-13-01.md'', False),
             (''README.md'', False)] \<and> isEntryFileName s"
    by blast
  from n(2) e have "''2024-02-29.md'' \<in> set names \<and> ''2023-02-29.md'' \<notin> set names \<and>
      ''2024-13-01.md'' \<notin> set names \<and> ''2024-1-5.md'' \<notin> set names \<and>
      ''README.md'' \<notin> set names \<and> ''2024-03-01.md'' \<notin> set names"
    by simp
  with r n(1) show ?thesis by blast
qed

text \<open>
  C3. The list \<open>ListEntries\<close> returns is sorted in descending order of the file names as
  byte strings, and for the directory of the specification's example it is exactly
  \<open>2024-01-20.md\<close>, \<open>2024-01-15.md\<close>, \<open>2024-01-10.md\<close>.
\<close>

theorem ListEntries_sorted_descending:
  "(ListEntries fs v = Inr names \<longrightarrow> sorted_wrt (\<lambda>a b. b \<le> a) names) \<and>
   ListEntries exampleFS journal = Inr [''2024-01-20.md'', ''2024-01-15.md'', ''2024-01-10.md'']"
proof
  show "ListEntries fs v = Inr names \<longrightarrow> sorted_wrt (\<lambda>a b. b \<le> a) names"
    by (auto simp: ListEntries_def sorted_sortSlice_desc split: sum.splits)
  show "ListEntries exampleFS journal =
          Inr [''2024-01-20.md'', ''2024-01-15.md'', ''2024-01-10.md'']"
    by code_simp
qed

theorem ListEntries_sorted_descending_witness:
  "ListEntries exampleFS journal = Inr [''2024-01-20.md'', ''2024-01-15.md'', ''2024-01-10.md''] \<and>
   sorted_wrt (\<lambda>a b. b \<le> a) [''2024-01-20.md'', ''2024-01-15.md'', ''2024-01-10.md'']"
  using ListEntries_sorted_descending
    [of exampleFS journal "[''2024-01-20.md'', ''2024-01-15.md'', ''2024-01-10.md'']"]
  by blast


section \<open>Existence and creation of an entry\<close>

lemma map_of_putFile: "map_of (nodes (putFile fs p c)) p = Some (RegularFile c)"
  by (simp add: putFile_def)

lemma denied_putFile: "denied (putFile fs p c) = denied fs"
  by (simp add: putFile_def)

lemma os_WriteFile_cases:
  "(\<exists>e. os_WriteFile fs p c = (Some e, fs)) \<or>
   (os_WriteFile fs p c = (None, putFile fs p c) \<and> p \<notin> set (denied fs))"
  by (auto simp: os_WriteFile_def split: option.splits node.splits)

text \<open>
  C9 (as amended). \<open>EntryExists\<close> is true if and only if \<open>os.Stat\<close> succeeds on
  \<open>DatePath\<close>: the path is not one on which system calls fail, and a node of any kind,
  regular file or directory, is bound to it. It returns a boolean in every case: a
  missing node and a failing call both give false.
\<close>

theorem EntryExists_iff_stat_succeeds:
  "EntryExists fs v d \<longleftrightarrow>
     DatePath v d \<notin> set (denied fs) \<and>
     (map_of (nodes fs) (DatePath v d) = Some Dir \<or>
      (\<exists>c. map_of (nodes fs) (DatePath v d) = Some (RegularFile c)))"
proof (cases "map_of (nodes fs) (DatePath v d)")
  case None
  then show ?thesis by (simp add: EntryExists_def os_Stat_def)
next
  case (Some n)
  then show ?thesis by (cases n) (simp_all add: EntryExists_def os_Stat_def)
qed

text \<open>
  A regular file that can be stat'ed exists; a missing file does not; and neither does a
  file on whose path the call fails.
\<close>

theorem EntryExists_iff_stat_succeeds_witness:
  "EntryExists exampleFS journal ''2024-01-15'' \<and>
   \<not> EntryExists exampleFS journal ''2024-03-01'' \<and>
   \<not> EntryExists (exampleFS\<lparr>denied := [''/j/2024-01-15.md'']\<rparr>) journal ''2024-01-15''"
proof -
  have p: "DatePath journal ''2024-01-15'' = ''/j/2024-01-15.md''"
    "DatePath journal ''2024-03-01'' = ''/j/2024-03-01.md''"
    by code_simp+
  show ?thesis
    using EntryExists_iff_stat_succeeds [of exampleFS journal "''2024-01-15''"]
      EntryExists_iff_stat_succeeds [of exampleFS journal "''2024-03-01''"]
      EntryExists_iff_stat_succeeds
        [of "exampleFS\<lparr>denied := [''/j/2024-01-15.md'']\<rparr>" journal "''2024-01-15''"]
    by (simp add: p exampleFS_def)
qed

text \<open>
  The claim as stated fails where the path holds a directory: in \<open>datesFS\<close> the node at
  \<open>/j/2024-03-01.md\<close> is a directory, no regular file exists there, and \<open>EntryExists\<close>
  is true.
\<close>

theorem EntryExists_counterexample:
  "DatePath journal ''2024-03-01'' = ''/j/2024-03-01.md'' \<and>
   map_of (nodes datesFS) ''/j/2024-03-01.md'' = Some Dir \<and>
   EntryExists datesFS journal ''2024-03-01''"
  by code_simp

lemma not_EntryExists_unbound:
  "\<not> EntryExists fs v d \<Longrightarrow> DatePath v d \<notin> set (denied fs) \<Longrightarrow>
   map_of (nodes fs) (DatePath v d) = None"
  by (auto simp: EntryExists_def os_Stat_def split: option.splits)

lemma os_WriteFile_creatable:
  "map_of (nodes fs) p = None \<Longrightarrow> creatable fs p \<Longrightarrow>
   os_WriteFile fs p c = (None, putFile fs p c)"
  by (simp add: os_WriteFile_def creatable_def)

lemma os_WriteFile_not_creatable:
  "p \<in> set (denied fs) \<or> map_of (nodes fs) p = None \<Longrightarrow> \<not> creatable fs p \<Longrightarrow>
   \<exists>e. os_WriteFile fs p c = (Some e, fs)"
  by (auto simp: os_WriteFile_def creatable_def split: option.splits)

text \<open>
  C7 (as amended). If \<open>EntryExists\<close> holds for the date, \<open>CreateEntry\<close> returns the
  already-exists error and the file system, hence the content of the file, is unchanged.
  Otherwise \<open>CreateEntry\<close> returns what \<open>os.WriteFile\<close> returns for the path of the date and
  the bytes \<open># date\<close> followed by two line feeds, a failure as the write error of the
  vault. Where the file can be created (no call fails on the path, its directory is not
  read-only and the path resolves) \<open>CreateEntry\<close> succeeds, the file system afterwards
  is the old one with the template at the path, and reading the entry gives exactly
  these bytes; where it cannot, \<open>CreateEntry\<close> returns a write error and the file system
  is unchanged.
\<close>

theorem CreateEntry_outcome:
  "(EntryExists fs v d \<longrightarrow> CreateEntry fs v d = (Some (AlreadyExists d), fs)) \<and>
   (\<not> EntryExists fs v d \<longrightarrow>
      CreateEntry fs v d =
        (case os_WriteFile fs (DatePath v d) (''# '' @ d @ ''\<newline>\<newline>'') of
           (None, fs') \<Rightarrow> (None, fs')
         | (Some e, fs') \<Rightarrow> (Some (WriteFailed d e), fs'))) \<and>
   (\<not> EntryExists fs v d \<and> creatable fs (DatePath v d) \<longrightarrow>
      CreateEntry fs v d = (None, putFile fs (DatePath v d) (''# '' @ d @ ''\<newline>\<newline>'')) \<and>
      ReadEntry (putFile fs (DatePath v d) (''# '' @ d @ ''\<newline>\<newline>'')) v d =
        Inr (''# '' @ d @ ''\<newline>\<newline>'')) \<and>
   (\<not> EntryExists fs v d \<and> \<not> creatable fs (DatePath v d) \<longrightarrow>
      (\<exists>e. CreateEntry fs v d = (Some (WriteFailed d e), fs)))"
proof (intro conjI impI)
  assume "EntryExists fs v d"
  then show "CreateEntry fs v d = (Some (AlreadyExists d), fs)"
    by (simp add: CreateEntry_def)
next
  assume "\<not> EntryExists fs v d"
  then show "CreateEntry fs v d =
        (case os_WriteFile fs (DatePath v d) (''# '' @ d @ ''\<newline>\<newline>'') of
           (None, fs') \<Rightarrow> (None, fs')
         | (Some e, fs') \<Rightarrow> (Some (WriteFailed d e), fs'))"
    by (simp add: CreateEntry_def WriteEntry_def split: prod.splits option.splits)
next
  let ?p = "DatePath v d" and ?c = "''# '' @ d @ ''\<newline>\<newline>''"
  assume a: "\<not> EntryExists fs v d \<and> creatable fs ?p"
  then have nd: "?p \<notin> set (denied fs)" by (simp add: creatable_def)
  with a have "map_of (nodes fs) ?p = None" by (simp add: not_EntryExists_unbound)
  with a have w: "os_WriteFile fs ?p ?c = (None, putFile fs ?p ?c)"
    by (simp add: os_WriteFile_creatable)
  then show "CreateEntry fs v d = (None, putFile fs ?p ?c)"
    using a by (simp add: CreateEntry_def WriteEntry_def)
  show "ReadEntry (putFile fs ?p ?c) v d = Inr ?c"
    using nd by (simp add: ReadEntry_def os_ReadFile_def map_of_putFile denied_putFile)
next
  let ?p = "DatePath v d" and ?c = "''# '' @ d @ ''\<newline>\<newline>''"
  assume a: "\<not> EntryExists fs v d \<and> \<not> creatable fs ?p"
  have "?p \<in> set (denied fs) \<or> map_of (nodes fs) ?p = None"
  proof (cases "?p \<in> set (denied fs)")
    case True
    then show ?thesis by simp
  next
    case False
    with a show ?thesis by (simp add: not_EntryExists_unbound)
  qed
  with a obtain e where "os_WriteFile fs ?p ?c = (Some e, fs)"
    using os_WriteFile_not_creatable [of ?p fs ?c] by blast
  then show "\<exists>e. CreateEntry fs v d = (Some (WriteFailed d e), fs)"
    using a by (simp add: CreateEntry_def WriteEntry_def)
qed

text \<open>
  In the example directory the entry of 2024-01-15 exists and is left as it is; the
  entry of 2024-03-01 can be created and is created with the template; with the
  directory read-only it cannot be created and a write error is returned.
\<close>

theorem CreateEntry_outcome_witness:
  "EntryExists exampleFS journal ''2024-01-15'' \<and>
   CreateEntry exampleFS journal ''2024-01-15'' = (Some (AlreadyExists ''2024-01-15''), exampleFS) \<and>
   \<not> EntryExists exampleFS journal ''2024-03-01'' \<and>
   creatable exampleFS (DatePath journal ''2024-03-01'') \<and>
   CreateEntry exampleFS journal ''2024-03-01'' =
     (None, putFile exampleFS ''/j/2024-03-01.md'' ''# 2024-03-01\<newline>\<newline>'') \<and>
   ReadEntry (putFile exampleFS ''/j/2024-03-01.md'' ''# 2024-03-01\<newline>\<newline>'') journal ''2024-03-01'' =
     Inr ''# 2024-03-01\<newline>\<newline>'' \<and>
   \<not> EntryExists readOnlyFS journal ''2024-03-01'' \<and>
   \<not> creatable readOnlyFS (DatePath journal ''2024-03-01'') \<and>
   (\<exists>e. CreateEntry readOnlyFS journal ''2024-03-01'' =
          (Some (WriteFailed ''2024-03-01'' e), readOnlyFS))"
proof -
  have a: "EntryExists exampleFS journal ''2024-01-15''"
    and b: "\<not> EntryExists exampleFS journal ''2024-03-01''"
    and c: "creatable exampleFS (DatePath journal ''2024-03-01'')"
    and d: "\<not> EntryExists readOnlyFS journal ''2024-03-01''"
    and e: "\<not> creatable readOnlyFS (DatePath journal ''2024-03-01'')"
    and p: "DatePath journal ''2024-03-01'' = ''/j/2024-03-01.md''"
    by code_simp+
  from CreateEntry_outcome [of exampleFS journal "''2024-01-15''"] a
  have 1: "CreateEntry exampleFS journal ''2024-01-15'' =
             (Some (AlreadyExists ''2024-01-15''), exampleFS)" by blast
  from CreateEntry_outcome [of exampleFS journal "''2024-03-01''", unfolded p] b c [unfolded p]
  have "CreateEntry exampleFS journal ''2024-03-01'' =
     (None, putFile exampleFS ''/j/2024-03-01.md'' (''# '' @ ''2024-03-01'' @ ''\<newline>\<newline>'')) \<and>
   ReadEntry (putFile exampleFS ''/j/2024-03-01.md'' (''# '' @ ''2024-03-01'' @ ''\<newline>\<newline>''))
       journal ''2024-03-01'' =
     Inr (''# '' @ ''2024-03-01'' @ ''\<newline>\<newline>'')"
    by blast
  then have 2: "CreateEntry exampleFS journal ''2024-03-01'' =
     (None, putFile exampleFS ''/j/2024-03-01.md'' ''# 2024-03-01\<newline>\<newline>'') \<and>
   ReadEntry (putFile exampleFS ''/j/2024-03-01.md'' ''# 2024-03-01\<newline>\<newline>'') journal ''2024-03-01'' =
     Inr ''# 2024-03-01\<newline>\<newline>''"
    by simp
  from CreateEntry_outcome [of readOnlyFS journal "''2024-03-01''"] d e
  have 3: "\<exists>e. CreateEntry readOnlyFS journal ''2024-03-01'' =
          (Some (WriteFailed ''2024-03-01'' e), readOnlyFS)"
    by blast
  from a b c d e 1 2 3 show ?thesis by blast
qed

text \<open>
  The claim as stated fails where the write fails: with the journal directory
  read-only no file exists for 2024-03-01, and \<open>CreateEntry\<close> does not succeed.
\<close>

theorem CreateEntry_counterexample:
  "map_of (nodes readOnlyFS) (DatePath journal ''2024-03-01'') = None \<and>
   \<not> EntryExists readOnlyFS journal ''2024-03-01'' \<and>
   CreateEntry readOnlyFS journal ''2024-03-01'' =
     (Some (WriteFailed ''2024-03-01'' EACCES), readOnlyFS)"
  by code_simp

text \<open>
  Two more failures of the write: a file name of 256 bytes is too long, and a journal
  directory below a regular file is not a directory.
\<close>

lemma CreateEntry_long_name:
  "fst (CreateEntry exampleFS journal (replicate 253 CHR ''a'')) =
     Some (WriteFailed (replicate 253 CHR ''a'') ENAMETOOLONG)"
  by code_simp

lemma CreateEntry_below_file:
  "CreateEntry exampleFS \<lparr>Directory = ''/j/readme.md''\<rparr> ''2024-03-01'' =
     (Some (WriteFailed ''2024-03-01'' ENOTDIR), exampleFS) \<and>
   ReadEntry exampleFS \<lparr>Directory = ''/j/readme.md''\<rparr> ''2024-03-01'' =
     Inl (ReadFailed ''2024-03-01'' ENOTDIR) \<and>
   ListEntries exampleFS \<lparr>Directory = ''/j/readme.md/x''\<rparr> =
     Inl (ReadDirFailed ''/j/readme.md/x'' ENOTDIR)"
  by code_simp

section \<open>Title and preview extraction\<close>

lemma dropWhile_suffix_drop:
  "dropWhile P xs = h # rest \<Longrightarrow> drop (length xs - length rest) xs = rest"
proof -
  assume a: "dropWhile P xs = h # rest"
  have "xs = takeWhile P xs @ h # rest"
    using takeWhile_dropWhile_id [of P xs] a by simp
  then obtain ys where xs: "xs = ys @ h # rest" by blast
  show ?thesis by (simp add: xs)
qed

lemma titleLoop_dropWhile:
  "titleLoop lines i =
     (case dropWhile (\<lambda>l. \<not> isHeading l) (drop i lines) of
        [] \<Rightarrow> (''(untitled)'', 0)
      | h # rest \<Rightarrow> (TrimSpace (drop 2 (TrimSpace h)), length lines - length rest))"
proof (induction lines i rule: titleLoop.induct)
  case (1 lines i)
  show ?case
  proof (cases "i < length lines")
    case False
    then show ?thesis by (simp add: titleLoop.simps [of lines i])
  next
    case True
    then have d: "drop i lines = lines ! i # drop (Suc i) lines"
      by (simp add: Cons_nth_drop_Suc)
    show ?thesis
    proof (cases "isHeading (lines ! i)")
      case h: True
      then show ?thesis using True
        by (simp add: titleLoop.simps [of lines i] d isHeading_def Let_def)
    next
      case h: False
      then have "titleLoop lines i = titleLoop lines (i + 1)"
        using True by (simp add: titleLoop.simps [of lines i] isHeading_def Let_def)
      also have "\<dots> = (case dropWhile (\<lambda>l. \<not> isHeading l) (drop (i + 1) lines) of
        [] \<Rightarrow> (''(untitled)'', 0)
      | h # rest \<Rightarrow> (TrimSpace (drop 2 (TrimSpace h)), length lines - length rest))"
        using "1.IH" [OF True refl] h by (simp add: isHeading_def)
      finally show ?thesis using h by (simp add: d)
    qed
  qed
qed

lemma previewLoop_started:
  "0 < c \<Longrightarrow> previewLoop lines n i c acc = acc @ take (nat (n - c)) (drop i lines)"
proof (induction lines n i c acc rule: previewLoop.induct)
  case (1 lines n i c acc)
  show ?case
  proof (cases "i < length lines \<and> c < n")
    case False
    then show ?thesis by (auto simp: previewLoop.simps [of lines n i c acc])
  next
    case True
    then have d: "drop i lines = lines ! i # drop (Suc i) lines"
      by (simp add: Cons_nth_drop_Suc)
    have n: "nat (n - c) = Suc (nat (n - (c + 1)))" using True by auto
    have "previewLoop lines n i c acc = previewLoop lines n (i + 1) (c + 1) (acc @ [lines ! i])"
      using True "1.prems" by (simp add: previewLoop.simps [of lines n i c acc])
    also have "\<dots> = (acc @ [lines ! i]) @ take (nat (n - (c + 1))) (drop (i + 1) lines)"
      using "1.IH"(1) [OF True refl] "1.prems" by simp
    finally show ?thesis by (simp add: d n)
  qed
qed

lemma previewLoop_fresh:
  "previewLoop lines n i 0 acc = acc @ take (nat n) (dropWhile isBlank (drop i lines))"
proof (induction lines n i "0::int" acc rule: previewLoop.induct)
  case (1 lines n i acc)
  show ?case
  proof (cases "i < length lines \<and> 0 < n")
    case False
    then show ?thesis by (auto simp: previewLoop.simps [of lines n i 0 acc])
  next
    case True
    then have d: "drop i lines = lines ! i # drop (Suc i) lines"
      by (simp add: Cons_nth_drop_Suc)
    have n: "nat n = Suc (nat (n - 1))" using True by auto
    show ?thesis
    proof (cases "isBlank (lines ! i)")
      case b: False
      then have "previewLoop lines n i 0 acc = previewLoop lines n (i + 1) 1 (acc @ [lines ! i])"
        using True by (simp add: previewLoop.simps [of lines n i 0 acc] isBlank_def)
      also have "\<dots> = (acc @ [lines ! i]) @ take (nat (n - 1)) (drop (i + 1) lines)"
        by (simp add: previewLoop_started)
      finally show ?thesis using b by (simp add: d n)
    next
      case b: True
      then have "previewLoop lines n i 0 acc = previewLoop lines n (i + 1) 0 acc"
        using True by (simp add: previewLoop.simps [of lines n i 0 acc] isBlank_def)
      also have "\<dots> = acc @ take (nat n) (dropWhile isBlank (drop (i + 1) lines))"
        using "1.hyps"(2) [OF True refl] b by (simp add: isBlank_def)
      finally show ?thesis using b by (simp add: d)
    qed
  qed
qed

text \<open>
  C4. For every content and every \<open>previewLines\<close>, the title is the trimmed text after
  the \<open># \<close> of the first line whose trimmed form starts with \<open># \<close>, or \<open>(untitled)\<close>
  when there is no such line; the preview starts after that line (at line 0 when there
  is none), skips blank lines while nothing has been collected, and then collects every
  line, blank or not, until \<open>previewLines\<close> lines are collected or the input ends.
\<close>

theorem extractTitleAndPreview_spec:
  "extractTitleAndPreview content n =
     (specTitle (SplitLines content), specPreview (SplitLines content) n)"
proof (cases "dropWhile (\<lambda>l. \<not> isHeading l) (SplitLines content)")
  case Nil
  then show ?thesis
    by (simp add: extractTitleAndPreview_def titleLoop_dropWhile previewLoop_fresh
        specTitle_def specPreview_def linesAfterHeading_def Let_def
        del: dropWhile_eq_Nil_conv)
next
  case (Cons h rest)
  from dropWhile_suffix_drop [OF Cons]
  show ?thesis using Cons
    by (simp add: extractTitleAndPreview_def titleLoop_dropWhile previewLoop_fresh
        specTitle_def specPreview_def linesAfterHeading_def Let_def)
qed

text \<open>The example of the specification: the blank line between the two lines is kept.\<close>

theorem extractTitleAndPreview_spec_witness:
  "extractTitleAndPreview ''# Title\<newline>\<newline>\<newline>First\<newline>\<newline>Second'' 3 =
     (''Title'', [''First'', [], ''Second''])"
proof -
  have "specTitle (SplitLines ''# Title\<newline>\<newline>\<newline>First\<newline>\<newline>Second'') = ''Title''"
    by code_simp
  moreover have "specPreview (SplitLines ''# Title\<newline>\<newline>\<newline>First\<newline>\<newline>Second'') 3 =
      [''First'', [], ''Second'']"
    by code_simp
  ultimately show ?thesis
    using extractTitleAndPreview_spec [of "''# Title\<newline>\<newline>\<newline>First\<newline>\<newline>Second''" 3]
    by simp
qed


section \<open>Scroll reclamping keeps the cursor visible\<close>


lemma hk_up:
  "entries m \<noteq> [] \<Longrightarrow> key = ''up'' \<or> key = ''k'' \<Longrightarrow>
   handleKeyPress m key =
     (if cursor m > 0 then Inr (adjustScroll (m\<lparr>cursor := i64 (cursor m - 1)\<rparr>), NoCmd)
      else Inr (m, NoCmd))"
  by (auto simp: handleKeyPress_def len_def)

lemma hk_down:
  "entries m \<noteq> [] \<Longrightarrow> key = ''down'' \<or> key = ''j'' \<Longrightarrow>
   handleKeyPress m key =
     (if cursor m < len (entries m) - 1
      then Inr (adjustScroll (m\<lparr>cursor := i64 (cursor m + 1)\<rparr>), NoCmd)
      else Inr (m, NoCmd))"
  by (auto simp: handleKeyPress_def len_def)









lemma adjustScroll_fields [simp]:
  "entries (adjustScroll m) = entries m"
  "cursor (adjustScroll m) = cursor m"
  "viewportHeight (adjustScroll m) = viewportHeight m"
  by (simp_all add: adjustScroll_def Let_def)










section \<open>Resizing the window\<close>

lemma Update_WindowSizeMsg:
  "Update m (WindowSizeMsg w h) = Inr (m\<lparr>viewportHeight := i64 (h - 6)\<rparr>, NoCmd)"
  by (simp add: Update_def)

text \<open>
  C6. A resize sets \<open>viewportHeight\<close> to \<open>height - 6\<close> and changes nothing else: the scroll
  offset is not reclamped. With three entries on a terminal of 13 rows, \<open>end\<close> puts the
  cursor at 2, the scroll offset stays 0 and the cursor is visible. Shrinking the
  terminal to 11 rows leaves cursor and scroll offset as they are: in the state the
  resize returns the visible height is 1, the cursor is not visible, and the frame has
  rows for the indices 0 and 1 only.
\<close>

theorem resize_leaves_scroll_stale:
  "Update m (WindowSizeMsg w h) = Inr (m\<lparr>viewportHeight := i64 (h - 6)\<rparr>, NoCmd) \<and>
   deliver (NewModel ''/j'' 5)
       [WindowSizeMsg 80 13, LoadEntriesMsg [entryA, entryB, entryC] None, KeyMsg ''end''] =
     Inr (loadedThree\<lparr>viewportHeight := 7, cursor := 2\<rparr>) \<and>
   cursorVisible (loadedThree\<lparr>viewportHeight := 7, cursor := 2\<rparr>) \<and>
   scrollBounded (loadedThree\<lparr>viewportHeight := 7, cursor := 2\<rparr>) \<and>
   Update (loadedThree\<lparr>viewportHeight := 7, cursor := 2\<rparr>) (WindowSizeMsg 80 11) =
     Inr (loadedThree\<lparr>viewportHeight := 5, cursor := 2\<rparr>, NoCmd) \<and>
   \<not> cursorVisible (loadedThree\<lparr>viewportHeight := 5, cursor := 2\<rparr>) \<and>
   visibleRange (loadedThree\<lparr>viewportHeight := 5, cursor := 2\<rparr>) = (0, 1) \<and>
   entryRows markStyles (loadedThree\<lparr>viewportHeight := 5, cursor := 2\<rparr>) 1 0 =
     Inr [(0, renderEntry markStyles entryA False @ ''\<newline>''),
          (1, renderEntry markStyles entryB False @ ''\<newline>'')]"
proof (intro conjI)
  show "Update m (WindowSizeMsg w h) = Inr (m\<lparr>viewportHeight := i64 (h - 6)\<rparr>, NoCmd)"
    by (rule Update_WindowSizeMsg)
qed code_simp+

section \<open>Moves at the ends of the list\<close>

text \<open>
  C10. A move up (\<open>up\<close>, \<open>k\<close>) with the cursor at 0, and a move down (\<open>down\<close>, \<open>j\<close>) with the
  cursor at \<open>len entries - 1\<close>, return the model unchanged and no command: the scroll
  offset is not reclamped, whatever its value.
\<close>

theorem boundary_moves_change_nothing:
  "(cursor m = 0 \<and> (key = ''up'' \<or> key = ''k'')) \<or>
   (cursor m = len (entries m) - 1 \<and> (key = ''down'' \<or> key = ''j'')) \<Longrightarrow>
   Update m (KeyMsg key) = Inr (m, NoCmd)"
proof (cases "entries m = []")
  case True
  assume "(cursor m = 0 \<and> (key = ''up'' \<or> key = ''k'')) \<or>
   (cursor m = len (entries m) - 1 \<and> (key = ''down'' \<or> key = ''j''))"
  then have "key \<noteq> ''q''" "key \<noteq> ''ctrl+c''" by auto
  with True show ?thesis by (simp add: Update_def handleKeyPress_def len_def)
next
  case False
  assume "(cursor m = 0 \<and> (key = ''up'' \<or> key = ''k'')) \<or>
   (cursor m = len (entries m) - 1 \<and> (key = ''down'' \<or> key = ''j''))"
  then show ?thesis
  proof
    assume "cursor m = 0 \<and> (key = ''up'' \<or> key = ''k'')"
    then show ?thesis by (simp add: Update_def hk_up [OF False])
  next
    assume "cursor m = len (entries m) - 1 \<and> (key = ''down'' \<or> key = ''j'')"
    then show ?thesis by (simp add: Update_def hk_down [OF False])
  qed
qed

text \<open>
  In the state left by the resize above the cursor is on the last entry and not visible;
  a move down there changes nothing, and so does a move up with the cursor at 0.
\<close>

theorem boundary_moves_change_nothing_witness:
  "cursor (loadedThree\<lparr>viewportHeight := 5, cursor := 2\<rparr>) =
     len (entries (loadedThree\<lparr>viewportHeight := 5, cursor := 2\<rparr>)) - 1 \<and>
   \<not> cursorVisible (loadedThree\<lparr>viewportHeight := 5, cursor := 2\<rparr>) \<and>
   Update (loadedThree\<lparr>viewportHeight := 5, cursor := 2\<rparr>) (KeyMsg ''down'') =
     Inr (loadedThree\<lparr>viewportHeight := 5, cursor := 2\<rparr>, NoCmd) \<and>
   cursor (loadedThree\<lparr>scrollOffset := 1\<rparr>) = 0 \<and>
   Update (loadedThree\<lparr>scrollOffset := 1\<rparr>) (KeyMsg ''k'') =
     Inr (loadedThree\<lparr>scrollOffset := 1\<rparr>, NoCmd)"
proof -
  have 1: "cursor (loadedThree\<lparr>viewportHeight := 5, cursor := 2\<rparr>) =
     len (entries (loadedThree\<lparr>viewportHeight := 5, cursor := 2\<rparr>)) - 1"
    by (simp add: loadedThree_def len_def)
  have 2: "cursor (loadedThree\<lparr>scrollOffset := 1\<rparr>) = 0"
    by (simp add: loadedThree_def NewModel_def)
  have 3: "\<not> cursorVisible (loadedThree\<lparr>viewportHeight := 5, cursor := 2\<rparr>)"
    by (simp add: cursorVisible_def loadedThree_def NewModel_def)
  from 1 2 3
    boundary_moves_change_nothing
      [of "loadedThree\<lparr>viewportHeight := 5, cursor := 2\<rparr>" "''down''"]
    boundary_moves_change_nothing [of "loadedThree\<lparr>scrollOffset := 1\<rparr>" "''k''"]
  show ?thesis by simp
qed

section \<open>The rows of the rendered frame\<close>

lemma previewText_filter:
  "previewText st ps =
     concat (map (\<lambda>p. previewStyle st (''  '' @ p) @ ''\<newline>'') (filter (\<lambda>p. TrimSpace p \<noteq> []) ps))"
  by (induction ps) simp_all

text \<open>
  The rows of the frame: from a scroll offset that is not negative, \<open>View\<close> writes one
  row for every index from the scroll offset up to and including
  \<open>min end (len entries - 1)\<close>, where \<open>end\<close> is the second component of \<open>visibleRange\<close>.
\<close>

lemma entryRows_indices:
  "0 \<le> i \<Longrightarrow>
   entryRows st m end1 i =
     Inr (map (\<lambda>j. (j, renderEntry st (entries m ! nat j) (j = cursor m) @ ''\<newline>''))
              [i..min end1 (len (entries m) - 1)])"
proof (induction st m end1 i rule: entryRows.induct)
  case (1 st m end1 i)
  show ?case
  proof (cases "i \<le> end1 \<and> i < len (entries m)")
    case False
    then have "[i..min end1 (len (entries m) - 1)] = []" by auto
    with False show ?thesis by (auto simp: entryRows.simps [of st m end1 i])
  next
    case True
    then have u: "[i..min end1 (len (entries m) - 1)] = i # [i + 1..min end1 (len (entries m) - 1)]"
      by (intro upto_rec1) auto
    from "1.prems" have nn: "\<not> i < 0" "0 \<le> i + 1" by auto
    from "1.IH" [OF True nn] show ?thesis
      using True nn by (simp add: entryRows.simps [of st m end1 i] u)
  qed
qed

text \<open>
  C5. \<open>visibleRange\<close> returns \<open>scrollOffset + viewportHeight - 4\<close> as the last index and
  the loop of \<open>View\<close> includes it. With three entries, scroll offset 0 and viewport
  height 6 the visible height is 2, yet the frame has rows for the indices 0, 1 and 2,
  one more than the range \<open>[0, min (0 + 2) 3 - 1]\<close>; \<open>adjustScroll\<close> on the other hand takes
  index 2 to be below the viewport and scrolls when the cursor moves there.
\<close>

theorem view_renders_one_row_more:
  "scrollOffset loadedThree = 0 \<and> viewportHeight loadedThree - 4 = 2 \<and>
   len (entries loadedThree) = 3 \<and>
   visibleRange loadedThree = (0, 2) \<and>
   entryRows markStyles loadedThree 2 0 =
     Inr [(0, renderEntry markStyles entryA True @ ''\<newline>''),
          (1, renderEntry markStyles entryB False @ ''\<newline>''),
          (2, renderEntry markStyles entryC False @ ''\<newline>'')] \<and>
   View markStyles loadedThree =
     Inr (titleText @ ''\<newline>\<newline>'' @
          renderEntry markStyles entryA True @ ''\<newline>'' @
          renderEntry markStyles entryB False @ ''\<newline>'' @
          renderEntry markStyles entryC False @ ''\<newline>'' @
          ''\<newline>'' @ helpText) \<and>
   scrollOffset (adjustScroll (loadedThree\<lparr>cursor := 2\<rparr>)) = 1"
  by code_simp

section \<open>Empty journal: only quit is honoured\<close>

text \<open>
  C8. When the entry list is empty, a key other than the quit keys (\<open>q\<close>, \<open>ctrl+c\<close>)
  returns the model unchanged and no command, and a quit key changes nothing but the
  quitting flag; no cursor arithmetic is evaluated and no panic can occur.
\<close>

theorem empty_journal_only_quit:
  "entries m = [] \<Longrightarrow>
     handleKeyPress m key =
       (if key = ''q'' \<or> key = ''ctrl+c'' then Inr (m\<lparr>quitting := True\<rparr>, Quit)
        else Inr (m, NoCmd))"
  by (simp add: handleKeyPress_def len_def)

theorem empty_journal_only_quit_witness:
  "handleKeyPress (NewModel ''/j'' 5) ''pgup'' = Inr (NewModel ''/j'' 5, NoCmd) \<and>
   handleKeyPress (NewModel ''/j'' 5) ''q'' = Inr ((NewModel ''/j'' 5)\<lparr>quitting := True\<rparr>, Quit)"
  using empty_journal_only_quit [of "NewModel ''/j'' 5" "''pgup''"]
        empty_journal_only_quit [of "NewModel ''/j'' 5" "''q''"]
  by (simp add: NewModel_def)

end
